theory Spec2Isabelle
  imports Main
begin

section \<open>Go library functions used by the service\<close>

text \<open>
  Go strings are byte sequences: they are modelled as \<^typ>\<open>string\<close> (a list of
  \<^typ>\<open>char\<close>, one per byte). Terms that hold JSON text are written in cartouches so
  that the double quotes of the Go literals can be kept as they are.
\<close>

subsection \<open>Package strings\<close>

text \<open>\<^verbatim>\<open>strings.HasPrefix(s, prefix)\<close>: \<^verbatim>\<open>len(s) >= len(prefix) && s[:len(prefix)] == prefix\<close>.\<close>

definition HasPrefix :: "string \<Rightarrow> string \<Rightarrow> bool" where
  "HasPrefix s p = (length p \<le> length s \<and> take (length p) s = p)"

text \<open>\<^verbatim>\<open>strings.Contains(s, substr)\<close>: some position of \<open>s\<close> starts with \<open>substr\<close>.\<close>

fun Contains :: "string \<Rightarrow> string \<Rightarrow> bool" where
  "Contains [] substr = (substr = [])"
| "Contains (c # cs) substr = (HasPrefix (c # cs) substr \<or> Contains cs substr)"

text \<open>
  \<^verbatim>\<open>strings.ReplaceAll(s, old, new)\<close>: the non-overlapping occurrences of \<open>old\<close>
  are replaced from left to right. An empty \<open>old\<close> matches before every byte and at
  the end (Go matches at UTF-8 sequence boundaries; the two agree on ASCII text).
\<close>

fun ReplaceAll :: "string \<Rightarrow> string \<Rightarrow> string \<Rightarrow> string" where
  "ReplaceAll [] old new = (if old = [] then new else [])"
| "ReplaceAll (c # cs) old new =
     (if old = [] then new @ c # ReplaceAll cs old new
      else if HasPrefix (c # cs) old
        then new @ ReplaceAll (drop (length old - 1) cs) old new
      else c # ReplaceAll cs old new)"

subsection \<open>Decimal formatting and parsing\<close>

definition digit_char :: "nat \<Rightarrow> char" where
  "digit_char d = char_of (48 + d)"

fun format_nat :: "nat \<Rightarrow> string" where
  "format_nat n =
     (if n < 10 then [digit_char n] else format_nat (n div 10) @ [digit_char (n mod 10)])"

declare format_nat.simps [simp del]

text \<open>The verb \<^verbatim>\<open>%d\<close> of \<^verbatim>\<open>fmt.Sprintf\<close> on an \<^verbatim>\<open>int\<close>.\<close>

definition FormatInt :: "int \<Rightarrow> string" where
  "FormatInt i = (if i < 0 then CHR ''-'' # format_nat (nat (- i)) else format_nat (nat i))"

datatype error = Error string

definition isDigit :: "char \<Rightarrow> bool" where
  "isDigit c = (48 \<le> (of_char c :: nat) \<and> (of_char c :: nat) \<le> 57)"

fun parse_digits :: "string \<Rightarrow> nat \<Rightarrow> nat option" where
  "parse_digits [] n = Some n"
| "parse_digits (c # cs) n =
     (if isDigit c then parse_digits cs (n * 10 + (of_char c - 48)) else None)"

text \<open>
  \<^verbatim>\<open>strconv.Atoi(s)\<close>, that is \<^verbatim>\<open>ParseInt(s, 10, 0)\<close>: an optional sign, then one or
  more decimal digits and nothing else; the value has to fit the \<^verbatim>\<open>int\<close> type, taken
  as 64 bits wide. Both failures are a \<^verbatim>\<open>*NumError\<close>; callers here only test it
  against \<^verbatim>\<open>nil\<close>.
\<close>

definition Atoi :: "string \<Rightarrow> error + int" where
  "Atoi s =
     (let neg = (s \<noteq> [] \<and> hd s = CHR ''-'');
          ds = (if s \<noteq> [] \<and> (hd s = CHR ''-'' \<or> hd s = CHR ''+'') then tl s else s)
      in if ds = [] then Inl (Error ''strconv.Atoi: invalid syntax'')
         else case parse_digits ds 0 of
           None \<Rightarrow> Inl (Error ''strconv.Atoi: invalid syntax'')
         | Some n \<Rightarrow>
             let v = (if neg then - int n else int n)
             in if v < - (2 ^ 63) \<or> 2 ^ 63 - 1 < v
                then Inl (Error ''strconv.Atoi: value out of range'')
                else Inr v)"

section \<open>cmd/projectord: the Postgres connection string\<close>

definition backslash :: char where
  "backslash = CHR 0x5C"

definition quote :: char where
  "quote = CHR 0x27"

text \<open>
  \<^verbatim>\<open>encodePostgresConfig\<close>: first every backslash is doubled, then every single quote
  gets a backslash in front.
\<close>

definition encodePostgresConfig :: "string \<Rightarrow> string" where
  "encodePostgresConfig s =
     ReplaceAll (ReplaceAll s [backslash] [backslash, backslash]) [quote] [backslash, quote]"

text \<open>
  The reading of the claim's words "each occurrence of the byte \<open>c\<close> replaced by
  \<open>new\<close>", to compare the code with.
\<close>

definition replace_each :: "char \<Rightarrow> string \<Rightarrow> string \<Rightarrow> string" where
  "replace_each c new s = concat (map (\<lambda>x. if x = c then new else [x]) s)"

text \<open>What the two replacements make of one byte.\<close>

definition esc :: "char \<Rightarrow> string" where
  "esc c = (if c = backslash then [backslash, backslash] else if c = quote then [backslash, quote] else [c])"

text \<open>
  How a quoted value of a keyword/value connection string is read, after its opening
  quote, following the libpq documentation that the source's comment points to: a
  backslash makes the next byte literal, and the first single quote that is not escaped
  ends the value. The result is the decoded value and the text after the closing quote;
  \<open>None\<close> when the value is not terminated.
\<close>

fun read_quoted :: "string \<Rightarrow> (string \<times> string) option" where
  "read_quoted [] = None"
| "read_quoted [c] = (if c = quote then Some ([], []) else None)"
| "read_quoted (c # d # cs) =
     (if c = quote then Some ([], d # cs)
      else if c = backslash
        then (case read_quoted cs of None \<Rightarrow> None | Some (v, r) \<Rightarrow> Some (d # v, r))
      else (case read_quoted (d # cs) of None \<Rightarrow> None | Some (v, r) \<Rightarrow> Some (c # v, r)))"

section \<open>pkg/http: the authorisation middleware\<close>

subsection \<open>Requests, responses and the collaborators\<close>

text \<open>
  An inbound request, as far as the middleware looks at it: the values of the path
  wildcards (\<^verbatim>\<open>r.PathValue\<close>) and the credentials that the authentication library
  reads from cookie and header.
\<close>

record request =
  PathValue :: "string \<Rightarrow> string"
  Credentials :: string

text \<open>The request context returned by \<^verbatim>\<open>auth.Authenticate\<close>; it carries the user id.\<close>

record "context" =
  userID :: int

definition FromContext :: "context \<Rightarrow> int" where
  "FromContext ctx = userID ctx"

record ProjectorConfig =
  RestricterUrl :: string

text \<open>An outbound \<^verbatim>\<open>http.Request\<close> and the \<^verbatim>\<open>http.Response\<close> to it.\<close>

record out_request =
  req_Method :: string
  req_URL :: string
  req_Header :: "(string \<times> string list) list"
  req_Body :: string

text \<open>
  \<open>resp_ReadAll\<close> is what \<^verbatim>\<open>io.ReadAll(resp.Body)\<close> returns, the bytes read and
  the error if any; \<open>resp_Close\<close> is the result of \<^verbatim>\<open>resp.Body.Close()\<close>.
\<close>

record response =
  resp_StatusCode :: int
  resp_ReadAll :: "string \<times> error option"
  resp_Close :: "error option"

text \<open>
  What lies outside the process: whether \<^verbatim>\<open>net/url\<close> accepts a URL, and what
  \<^verbatim>\<open>client.Do\<close> returns for a request (a transport error or a response).
\<close>

record network =
  url_Parse_ok :: "string \<Rightarrow> bool"
  client_Do :: "out_request \<Rightarrow> error + response"

text \<open>
  \<^verbatim>\<open>http.NewRequest(method, url, body)\<close> fails when the URL does not parse (the method
  passed here is the constant \<^verbatim>\<open>"POST"\<close>, a valid token); otherwise the request has
  the method, the URL, the body and no header yet.
\<close>

definition NewRequest :: "(string \<Rightarrow> bool) \<Rightarrow> string \<Rightarrow> string \<Rightarrow> string \<Rightarrow> error + out_request" where
  "NewRequest parse_ok method url body =
     (if parse_ok url
      then Inr \<lparr>req_Method = method, req_URL = url, req_Header = [], req_Body = body\<rparr>
      else Inl (Error ''parse url''))"

text \<open>
  What a handler does, in order: calls on the \<^verbatim>\<open>http.ResponseWriter\<close>
  (\<open>WriteHeader\<close>, \<open>Write\<close>), requests sent with \<^verbatim>\<open>client.Do\<close>, log entries,
  and the call of the wrapped handler with the request and its new context.
\<close>

datatype event =
    WriteHeader int
  | Write string
  | Do out_request
  | LogErr string
  | ServeHTTP request "context"

definition StatusOK :: int where
  "StatusOK = 200"

definition StatusBadRequest :: int where
  "StatusBadRequest = 400"

definition StatusUnauthorized :: int where
  "StatusUnauthorized = 401"

definition StatusInternalServerError :: int where
  "StatusInternalServerError = 500"

text \<open>
  \<^verbatim>\<open>net/http\<close> on the status codes. \<^verbatim>\<open>checkWriteHeaderCode\<close> makes
  \<^verbatim>\<open>WriteHeader\<close> panic for a code below 100 or above 999. A code from 100 to 199
  other than 101 is written as an interim response and leaves the status open (the
  source needs Go 1.22 for \<^verbatim>\<open>r.PathValue\<close>). \<^verbatim>\<open>bodyAllowedForStatus\<close>: a
  response with status 1xx, 204 or 304 has no body, and a write to it is refused.
\<close>

definition validWriteHeaderCode :: "int \<Rightarrow> bool" where
  "validWriteHeaderCode code = (100 \<le> code \<and> code \<le> 999)"

definition informational :: "int \<Rightarrow> bool" where
  "informational code = (100 \<le> code \<and> code \<le> 199 \<and> code \<noteq> 101)"

definition bodyAllowedForStatus :: "int \<Rightarrow> bool" where
  "bodyAllowedForStatus status =
     (if 100 \<le> status \<and> status \<le> 199 then False
      else if status = 204 then False
      else if status = 304 then False
      else True)"

text \<open>
  \<^verbatim>\<open>w.WriteHeader(code)\<close> as the first call on the writer, followed by the rest of
  the handler: when the call panics, the rest is not run (the server recovers the panic
  and closes the connection).
\<close>

definition WriteHeader_then :: "int \<Rightarrow> event list \<Rightarrow> event list" where
  "WriteHeader_then code rest =
     (if validWriteHeaderCode code then WriteHeader code # rest else [WriteHeader code])"

text \<open>
  \<^verbatim>\<open>writeResponse(w, resp)\<close> is \<^verbatim>\<open>fmt.Fprintln(w, resp)\<close>: one write of \<open>resp\<close>
  and a line feed. A write that fails is logged and changes nothing else, so the
  trace records the write itself.
\<close>

definition writeResponse :: "string \<Rightarrow> event list" where
  "writeResponse resp = [Write (resp @ [CHR 0x0A])]"

subsection \<open>authMiddleware\<close>

text \<open>
  The calls \<^verbatim>\<open>w.WriteHeader\<close> with the constants 400, 401 and 500 cannot panic;
  the one with the status of the restriction service can, and is written with
  \<open>WriteHeader_then\<close>.
\<close>

definition restrict_body :: "int \<Rightarrow> string" where
  \<open>restrict_body pid =
     ''[{"collection": "projector", "ids":['' @ FormatInt pid @ ''], "fields": {"id": null}}]''\<close>

definition restrict_marker :: "int \<Rightarrow> string" where
  \<open>restrict_marker pid = ''"projector/'' @ FormatInt pid @ ''/id":'' @ FormatInt pid\<close>

definition authMiddleware ::
  "(request \<Rightarrow> error + context) \<Rightarrow> ProjectorConfig \<Rightarrow> network \<Rightarrow> request \<Rightarrow> event list" where
  \<open>authMiddleware Authenticate cfg net r =
     (case Authenticate r of
        Inl err \<Rightarrow>
          WriteHeader StatusUnauthorized
            # writeResponse ''{"error": true, "msg": "authenticate request failed"}''
      | Inr ctx \<Rightarrow>
         (case Atoi (PathValue r ''id'') of
            Inl err \<Rightarrow>
              WriteHeader StatusBadRequest
                # writeResponse ''{"error": true, "msg": "Projector id invalid"}''
          | Inr pid \<Rightarrow>
             (let body = restrict_body pid;
                  userID = FromContext ctx;
                  restrictUrl = RestricterUrl cfg @ ''?user_id='' @ FormatInt userID @ ''&single=1''
              in case NewRequest (url_Parse_ok net) ''POST'' restrictUrl body of
                   Inl err \<Rightarrow>
                     writeResponse ''{"error": true, "msg": "creating restriction request failed"}''
                 | Inr req0 \<Rightarrow>
                    (let req = req0\<lparr>req_Header := [(''Content-Type'', [''application/json''])]\<rparr>
                     in Do req #
                       (case client_Do net req of
                          Inl err \<Rightarrow>
                            WriteHeader StatusInternalServerError
                              # writeResponse ''{"error": true, "msg": "restriction request failed"}''
                        | Inr resp \<Rightarrow>
                            if resp_StatusCode resp \<noteq> StatusOK
                            then WriteHeader_then (resp_StatusCode resp)
                              (writeResponse ''{"error": true, "msg": "restriction request failed"}'')
                            else (case resp_ReadAll resp of (b, err) \<Rightarrow>
                              if err \<noteq> None \<or> \<not> Contains b (restrict_marker pid)
                              then WriteHeader StatusUnauthorized
                                # writeResponse ''{"error": true, "msg": "permissions denied"}''
                              else (case resp_Close resp of
                                      Some e \<Rightarrow> [LogErr ''error closing response body'']
                                    | None \<Rightarrow> [])
                                   @ [ServeHTTP r ctx]))))))\<close>

subsection \<open>Reading a trace\<close>

text \<open>
  What \<^verbatim>\<open>net/http\<close> sends for a handler's calls on its \<^verbatim>\<open>ResponseWriter\<close>,
  given the status written so far (\<open>None\<close> before the header is written): the final
  status and the body, or \<open>None\<close> when the handler panics before the header is
  written, so that no response is sent. The first \<open>WriteHeader\<close> with a final code
  fixes the status and later ones are ignored; a \<open>Write\<close> before any
  \<open>WriteHeader\<close> fixes it to 200, as the return of the handler does; the bytes of a
  \<open>Write\<close> are sent when the status allows a body.
\<close>

fun net_http :: "int option \<Rightarrow> event list \<Rightarrow> (int \<times> string) option" where
  "net_http st [] = Some (case st of None \<Rightarrow> StatusOK | Some c \<Rightarrow> c, [])"
| "net_http st (WriteHeader code # es) =
     (case st of
        Some c \<Rightarrow> net_http st es
      | None \<Rightarrow>
          if \<not> validWriteHeaderCode code then None
          else if informational code then net_http None es
          else net_http (Some code) es)"
| "net_http st (Write b # es) =
     (let c = (case st of None \<Rightarrow> StatusOK | Some c \<Rightarrow> c)
      in case net_http (Some c) es of
           None \<Rightarrow> None
         | Some (c', body) \<Rightarrow> Some (c', (if bodyAllowedForStatus c then b else []) @ body))"
| "net_http st (e # es) = net_http st es"

text \<open>
  Whether a response is sent, its status (0 when none is sent) and its body.
\<close>

definition response_sent :: "event list \<Rightarrow> bool" where
  "response_sent es = (net_http None es \<noteq> None)"

definition response_status :: "event list \<Rightarrow> int" where
  "response_status es = (case net_http None es of None \<Rightarrow> 0 | Some (c, body) \<Rightarrow> c)"

definition response_body :: "event list \<Rightarrow> string" where
  "response_body es = (case net_http None es of None \<Rightarrow> [] | Some (c, body) \<Rightarrow> body)"

text \<open>The requests sent to the restriction service, and the calls of the wrapped handler.\<close>

fun restricter_calls :: "event list \<Rightarrow> out_request list" where
  "restricter_calls [] = []"
| "restricter_calls (Do q # es) = q # restricter_calls es"
| "restricter_calls (e # es) = restricter_calls es"

fun handler_calls :: "event list \<Rightarrow> (request \<times> context) list" where
  "handler_calls [] = []"
| "handler_calls (ServeHTTP r ctx # es) = (r, ctx) # handler_calls es"
| "handler_calls (e # es) = handler_calls es"

text \<open>
  The request that the middleware builds for a projector id and an authenticated
  context (the result of \<open>NewRequest\<close> with the header set).
\<close>

definition restrict_request :: "ProjectorConfig \<Rightarrow> context \<Rightarrow> int \<Rightarrow> out_request" where
  "restrict_request cfg ctx pid =
     \<lparr>req_Method = ''POST'',
      req_URL = RestricterUrl cfg @ ''?user_id='' @ FormatInt (FromContext ctx) @ ''&single=1'',
      req_Header = [(''Content-Type'', [''application/json''])],
      req_Body = restrict_body pid\<rparr>"

text \<open>
  The reading of the claims' words "the path segment is an integer": an optional sign
  and then one or more decimal digits.
\<close>

definition decimal_integer :: "string \<Rightarrow> bool" where
  "decimal_integer s =
     (let ds = (case s of [] \<Rightarrow> [] | c # cs \<Rightarrow> if c = CHR ''-'' \<or> c = CHR ''+'' then cs else s)
      in ds \<noteq> [] \<and> list_all isDigit ds)"

section \<open>cmd/projectord: startup\<close>

record config =
  Bind :: string
  Development :: bool
  PostgresHost :: string
  PostgresPort :: string
  PostgresDatabase :: string
  PostgresUser :: string
  PostgresPasswordFile :: string
  MessageBusHost :: string
  MessageBusPort :: string
  RestricterUrl :: string
  PublicAccessOnly :: bool

text \<open>
  A \<^verbatim>\<open>flow.Flow\<close> value: the Postgres flow, the vote-count flow, or
  \<^verbatim>\<open>flow.Combine\<close> of a flow with a table from key prefix to flow.
\<close>

datatype flow =
    FlowPostgres
  | FlowVoteCount
  | Combine flow "(string \<times> flow) list"

record Datastore =
  ds_pgAddr :: string
  ds_redisAddr :: string
  ds_flow :: flow

text \<open>
  What startup does, in order: log entries by level, the constructors of the two flows,
  the launch of the goroutine that runs \<^verbatim>\<open>vote.Connect\<close>, and the calls of
  \<^verbatim>\<open>database.New\<close>, \<^verbatim>\<open>projectorHttp.New\<close> and \<^verbatim>\<open>srv.ListenAndServe\<close> with
  their arguments. \<open>OnTick\<close> is one refresh of the vote-count flow, made by
  \<^verbatim>\<open>vote.Connect\<close>.
\<close>

datatype startup_event =
    LogError string
  | LogFatal string
  | LogInfo string
  | NewFlowPostgres
  | NewFlowVoteCount
  | GoVoteConnect
  | DatabaseNew string string flow
  | ProjectorHttpNew ProjectorConfig Datastore flow
  | ListenAndServe string
  | OnTick

text \<open>
  What the environment answers: \<^verbatim>\<open>env.Parse\<close> (the configuration as far as it was
  filled in, and the error if any), \<^verbatim>\<open>datastore.NewFlowPostgres\<close>,
  \<^verbatim>\<open>os.ReadFile\<close>, \<^verbatim>\<open>database.New\<close>, and \<^verbatim>\<open>ListenAndServe\<close>, which either
  keeps serving (\<open>None\<close>) or returns with its result.
\<close>

record world =
  env_Parse :: "config \<times> error option"
  datastore_NewFlowPostgres :: "error option"
  os_ReadFile :: "string \<Rightarrow> error + string"
  database_New :: "string \<Rightarrow> string \<Rightarrow> flow \<Rightarrow> error option"
  srv_ListenAndServe :: "error option option"

text \<open>\<^verbatim>\<open>fmt.Errorf("<prefix>: %w", err)\<close>.\<close>

definition Errorf :: "string \<Rightarrow> error \<Rightarrow> error" where
  "Errorf pre err = (case err of Error msg \<Rightarrow> Error (pre @ '': '' @ msg))"

definition parseSecretsFile :: "world \<Rightarrow> string \<Rightarrow> error + string" where
  "parseSecretsFile w file =
     (case os_ReadFile w file of Inl err \<Rightarrow> Inl err | Inr content \<Rightarrow> Inr content)"

definition pgAddr_of :: "config \<Rightarrow> string \<Rightarrow> string" where
  "pgAddr_of cfg password =
     ''user='' @ [quote] @ encodePostgresConfig (PostgresUser cfg) @ [quote]
     @ '' password='' @ [quote] @ encodePostgresConfig password @ [quote]
     @ '' host='' @ [quote] @ encodePostgresConfig (PostgresHost cfg) @ [quote]
     @ '' port='' @ [quote] @ encodePostgresConfig (PostgresPort cfg) @ [quote]
     @ '' dbname='' @ [quote] @ encodePostgresConfig (PostgresDatabase cfg) @ [quote]"

definition getDatabase :: "world \<Rightarrow> config \<Rightarrow> flow \<Rightarrow> startup_event list \<times> (error + Datastore)" where
  "getDatabase w cfg dsFlow =
     (case (case parseSecretsFile w (PostgresPasswordFile cfg) of
              Inr password \<Rightarrow> Inr password
            | Inl err \<Rightarrow>
                if Development cfg then Inr ''openslides''
                else Inl (Errorf ''reading password from secrets'' err)) of
        Inl err \<Rightarrow> ([], Inl err)
      | Inr password \<Rightarrow>
         (let pgAddr = pgAddr_of cfg password;
              redisAddr = MessageBusHost cfg @ '':'' @ MessageBusPort cfg
          in case database_New w pgAddr redisAddr dsFlow of
               Some err \<Rightarrow> ([DatabaseNew pgAddr redisAddr dsFlow], Inl (Errorf ''creating datastore'' err))
             | None \<Rightarrow>
                 ([DatabaseNew pgAddr redisAddr dsFlow],
                  Inr \<lparr>ds_pgAddr = pgAddr, ds_redisAddr = redisAddr, ds_flow = dsFlow\<rparr>)))"

text \<open>
  How \<^verbatim>\<open>run\<close> ends: it returns an error or \<^verbatim>\<open>nil\<close>, the process exits inside it
  (\<^verbatim>\<open>log.Fatal\<close>), or it stays in \<^verbatim>\<open>ListenAndServe\<close>.
\<close>

datatype run_result =
    RunError error
  | RunNil
  | RunFatal
  | RunServing

definition run :: "world \<Rightarrow> config \<Rightarrow> startup_event list \<times> run_result" where
  "run w cfg =
     (case datastore_NewFlowPostgres w of
        Some err \<Rightarrow> ([NewFlowPostgres], RunError (Errorf ''connecting to datastore'' err))
      | None \<Rightarrow>
         (let dsFlow = FlowPostgres;
              vote = FlowVoteCount;
              (dataFlow, started) =
                 (if \<not> PublicAccessOnly cfg
                  then (Combine dsFlow [(''poll/live_votes'', vote)], [GoVoteConnect])
                  else (dsFlow, []));
              pre = [NewFlowPostgres, NewFlowVoteCount] @ started
          in case getDatabase w cfg dataFlow of
               (evs, Inl err) \<Rightarrow> (pre @ evs, RunError (Errorf ''connecting to database'' err))
             | (evs, Inr ds) \<Rightarrow>
                (let up = pre @ evs
                       @ [ProjectorHttpNew \<lparr>ProjectorConfig.RestricterUrl = config.RestricterUrl cfg\<rparr> ds dsFlow,
                          LogInfo (''Starting server on '' @ Bind cfg),
                          ListenAndServe (Bind cfg)]
                 in case srv_ListenAndServe w of
                      None \<Rightarrow> (up, RunServing)
                    | Some (Some err) \<Rightarrow> (up @ [LogFatal ''Could not listen and serve''], RunFatal)
                    | Some None \<Rightarrow> (up, RunNil))))"

text \<open>How the process ends: it exits with a status, or it keeps serving.\<close>

datatype outcome =
    Exit int
  | Serving

text \<open>
  \<^verbatim>\<open>main\<close>. Where the log is written to (standard output, or standard error in
  development mode) is not part of the trace.
\<close>

definition main :: "world \<Rightarrow> startup_event list \<times> outcome" where
  "main w =
     (case env_Parse w of (cfg, err) \<Rightarrow>
        (let parsed = (if err \<noteq> None then [LogError ''parsing config''] else [])
         in case run w cfg of
              (evs, RunError e) \<Rightarrow> (parsed @ evs @ [LogFatal ''Error during startup''], Exit 1)
            | (evs, RunFatal) \<Rightarrow> (parsed @ evs, Exit 1)
            | (evs, RunServing) \<Rightarrow> (parsed @ evs, Serving)
            | (evs, RunNil) \<Rightarrow> (parsed @ evs @ [LogInfo ''Stopped''], Exit 0)))"

subsection \<open>The refresher of the vote-count flow\<close>





text \<open>The flows that a trace hands to the database layer and to the HTTP handlers.\<close>

fun flows_served :: "startup_event list \<Rightarrow> flow list" where
  "flows_served [] = []"
| "flows_served (DatabaseNew pg redis f # es) = f # flows_served es"
| "flows_served (ProjectorHttpNew c ds f # es) = ds_flow ds # f # flows_served es"
| "flows_served (e # es) = flows_served es"

section \<open>Concrete requests and environments\<close>

text \<open>
  Inputs on which the theorems below are evaluated: a request for a path segment, an
  authentication that accepts every request for one user and one that rejects every
  request, a configuration, and two networks whose URL parser refuses a line feed (as
  \<^verbatim>\<open>net/url\<close> refuses control characters).
\<close>

definition request_for :: "string \<Rightarrow> request" where
  "request_for seg = \<lparr>PathValue = (\<lambda>name. if name = ''id'' then seg else []), Credentials = ''cookie''\<rparr>"

definition auth_accepts :: "int \<Rightarrow> request \<Rightarrow> error + context" where
  "auth_accepts uid r = Inr \<lparr>userID = uid\<rparr>"

definition auth_rejects :: "request \<Rightarrow> error + context" where
  "auth_rejects r = Inl (Error ''invalid token'')"

definition example_cfg :: ProjectorConfig where
  "example_cfg = \<lparr>ProjectorConfig.RestricterUrl = ''http://autoupdate:9012/internal/autoupdate''\<rparr>"

definition network_answering :: "response \<Rightarrow> network" where
  "network_answering resp = \<lparr>url_Parse_ok = (\<lambda>u. CHR 0x0A \<notin> set u), client_Do = (\<lambda>q. Inr resp)\<rparr>"

definition network_down :: network where
  "network_down = \<lparr>url_Parse_ok = (\<lambda>u. CHR 0x0A \<notin> set u), client_Do = (\<lambda>q. Inl (Error ''connection refused''))\<rparr>"

text \<open>
  A process configuration with the defaults of the \<^verbatim>\<open>env\<close> tags (three tags are
  spelled \<^verbatim>\<open>envDetault\<close> in the source and so give no default), an environment in
  which every collaborator succeeds and the server keeps serving, and the same
  configuration with public access only.
\<close>

definition example_config :: config where
  "example_config =
     \<lparr>Bind = '':9051'', Development = False, PostgresHost = ''localhost'',
      PostgresPort = ''5432'', PostgresDatabase = ''openslides'', PostgresUser = ''openslides'',
      PostgresPasswordFile = ''/run/secrets/postgres_password'',
      MessageBusHost = '''', MessageBusPort = '''', RestricterUrl = '''',
      PublicAccessOnly = False\<rparr>"

definition example_world :: "config \<times> error option \<Rightarrow> world" where
  "example_world parsed =
     \<lparr>env_Parse = parsed, datastore_NewFlowPostgres = None,
      os_ReadFile = (\<lambda>file. Inr ''secret''),
      database_New = (\<lambda>pgAddr redisAddr f. None),
      srv_ListenAndServe = None\<rparr>"

definition public_config :: config where
  "public_config = example_config\<lparr>PublicAccessOnly := True\<rparr>"

section \<open>Properties of the library functions\<close>

lemma Atoi_7: "Atoi ''7'' = Inr 7"
  by (simp add: Atoi_def isDigit_def)

lemma FormatInt_7: "FormatInt 7 = ''7''"
  by code_simp

lemma FormatInt_1: "FormatInt 1 = ''1''"
  by code_simp

lemma not_integer_abc: "\<not> decimal_integer ''abc''"
  by (simp add: decimal_integer_def isDigit_def)

lemma example_url_ok:
  "url_Parse_ok (network_answering resp) (req_URL (restrict_request example_cfg \<lparr>userID = 1\<rparr> 7))"
  by (simp add: network_answering_def restrict_request_def example_cfg_def FromContext_def FormatInt_1)

lemma example_url_ok_down:
  "url_Parse_ok network_down (req_URL (restrict_request example_cfg \<lparr>userID = 1\<rparr> 7))"
  by (simp add: network_down_def restrict_request_def example_cfg_def FromContext_def FormatInt_1)


lemma HasPrefix_iff: "HasPrefix s p \<longleftrightarrow> (\<exists>q. s = p @ q)"
  unfolding HasPrefix_def
  by (metis append_eq_conv_conj append_take_drop_id length_append le_add1)

lemma Contains_iff: "Contains s sub \<longleftrightarrow> (\<exists>p q. s = p @ sub @ q)"
proof (induction s)
  case Nil
  show ?case by auto
next
  case (Cons c cs)
  show ?case
  proof
    assume "Contains (c # cs) sub"
    then consider "HasPrefix (c # cs) sub" | "Contains cs sub" by auto
    then show "\<exists>p q. c # cs = p @ sub @ q"
    proof cases
      case 1
      then obtain q where "c # cs = sub @ q" by (auto simp: HasPrefix_iff)
      then have "c # cs = [] @ sub @ q" by simp
      then show ?thesis by blast
    next
      case 2
      with Cons.IH obtain p q where "cs = p @ sub @ q" by auto
      then have "c # cs = (c # p) @ sub @ q" by simp
      then show ?thesis by blast
    qed
  next
    assume "\<exists>p q. c # cs = p @ sub @ q"
    then obtain p q where pq: "c # cs = p @ sub @ q" by auto
    show "Contains (c # cs) sub"
    proof (cases p)
      case Nil
      with pq have "HasPrefix (c # cs) sub" by (auto simp: HasPrefix_iff)
      then show ?thesis by simp
    next
      case (Cons a p')
      with pq have "cs = p' @ sub @ q" by simp
      with Cons.IH have "Contains cs sub" by blast
      then show ?thesis by simp
    qed
  qed
qed

lemma parse_digits_None: "\<not> list_all isDigit ds \<Longrightarrow> parse_digits ds n = None"
  by (induction ds arbitrary: n) auto

lemma Atoi_not_integer: "\<not> decimal_integer s \<Longrightarrow> \<exists>e. Atoi s = Inl e"
  by (cases s) (auto simp: decimal_integer_def Atoi_def Let_def parse_digits_None split: if_splits)

text \<open>What \<^verbatim>\<open>%d\<close> writes, \<^verbatim>\<open>strconv.Atoi\<close> reads back.\<close>

lemma digit_char_digit: "d < 10 \<Longrightarrow> isDigit (digit_char d) \<and> of_char (digit_char d) - 48 = d"
  by (simp add: isDigit_def digit_char_def)

lemma parse_digits_append:
  "parse_digits (xs @ ys) n = (case parse_digits xs n of None \<Rightarrow> None | Some m \<Rightarrow> parse_digits ys m)"
  by (induction xs arbitrary: n) auto

lemma parse_format_nat: "parse_digits (format_nat n) 0 = Some n"
proof (induction n rule: format_nat.induct)
  case (1 n)
  show ?case
  proof (cases "n < 10")
    case True
    then show ?thesis by (subst format_nat.simps) (simp add: digit_char_digit)
  next
    case False
    with 1 have "parse_digits (format_nat (n div 10)) 0 = Some (n div 10)" by simp
    with False show ?thesis
      by (subst format_nat.simps) (simp add: parse_digits_append digit_char_digit)
  qed
qed

lemma format_nat_digits: "format_nat n \<noteq> [] \<and> isDigit (hd (format_nat n))"
proof (induction n rule: format_nat.induct)
  case (1 n)
  show ?case
  proof (cases "n < 10")
    case True
    then show ?thesis by (subst (1 2) format_nat.simps) (simp add: digit_char_digit)
  next
    case False
    with 1 have "format_nat (n div 10) \<noteq> [] \<and> isDigit (hd (format_nat (n div 10)))" by simp
    with False show ?thesis
      by (subst (1 2) format_nat.simps) simp
  qed
qed

lemma isDigit_not_sign: "isDigit c \<Longrightarrow> c \<noteq> CHR ''-'' \<and> c \<noteq> CHR ''+''"
  by (auto simp: isDigit_def)

lemma Atoi_FormatInt:
  assumes "- (2 ^ 63) \<le> i" and "i \<le> 2 ^ 63 - 1"
  shows "Atoi (FormatInt i) = Inr i"
proof (cases "i < 0")
  case True
  have "format_nat (nat (- i)) \<noteq> []" using format_nat_digits by blast
  with True assms show ?thesis
    by (simp add: FormatInt_def Atoi_def parse_format_nat)
next
  case False
  let ?s = "format_nat (nat i)"
  have ne: "?s \<noteq> []" and "isDigit (hd ?s)" using format_nat_digits by blast+
  then have "hd ?s \<noteq> CHR ''-''" "hd ?s \<noteq> CHR ''+''" using isDigit_not_sign by blast+
  with False assms ne show ?thesis
    by (simp add: FormatInt_def Atoi_def parse_format_nat)
qed

section \<open>Properties of authMiddleware\<close>

lemmas net_http_eval =
  response_sent_def response_status_def response_body_def validWriteHeaderCode_def
  informational_def bodyAllowedForStatus_def WriteHeader_then_def StatusOK_def

lemma authMiddleware_sent:
  assumes "Authenticate r = Inr ctx" and "Atoi (PathValue r ''id'') = Inr pid"
    and "url_Parse_ok net (req_URL (restrict_request cfg ctx pid))"
  shows \<open>authMiddleware Authenticate cfg net r =
     Do (restrict_request cfg ctx pid) #
       (case client_Do net (restrict_request cfg ctx pid) of
          Inl err \<Rightarrow>
            WriteHeader StatusInternalServerError
              # writeResponse ''{"error": true, "msg": "restriction request failed"}''
        | Inr resp \<Rightarrow>
            if resp_StatusCode resp \<noteq> StatusOK
            then WriteHeader_then (resp_StatusCode resp)
              (writeResponse ''{"error": true, "msg": "restriction request failed"}'')
            else (case resp_ReadAll resp of (b, err) \<Rightarrow>
              if err \<noteq> None \<or> \<not> Contains b (restrict_marker pid)
              then WriteHeader StatusUnauthorized
                # writeResponse ''{"error": true, "msg": "permissions denied"}''
              else (case resp_Close resp of
                      Some e \<Rightarrow> [LogErr ''error closing response body'']
                    | None \<Rightarrow> [])
                   @ [ServeHTTP r ctx]))\<close>
  using assms
  by (simp add: authMiddleware_def restrict_request_def NewRequest_def Let_def)

text \<open>
  Claim C2. When \<^verbatim>\<open>auth.Authenticate\<close> fails, the middleware writes the header 401
  and then \<^verbatim>\<open>writeResponse\<close> of the JSON text
  \<^verbatim>\<open>{"error": true, "msg": "authenticate request failed"}\<close> (the text and a line
  feed), and does nothing else: no request goes to the restriction service and the
  wrapped handler is not called.
\<close>

theorem authMiddleware_unauthenticated:
  assumes "Authenticate r = Inl err"
  shows \<open>authMiddleware Authenticate cfg net r =
           WriteHeader 401 # writeResponse ''{"error": true, "msg": "authenticate request failed"}''
         \<and> response_status (authMiddleware Authenticate cfg net r) = 401
         \<and> response_body (authMiddleware Authenticate cfg net r) =
             ''{"error": true, "msg": "authenticate request failed"}'' @ [CHR 0x0A]
         \<and> restricter_calls (authMiddleware Authenticate cfg net r) = []
         \<and> handler_calls (authMiddleware Authenticate cfg net r) = []\<close>
  using assms by (simp add: authMiddleware_def writeResponse_def net_http_eval StatusUnauthorized_def)

theorem authMiddleware_unauthenticated_witness:
  \<open>response_status (authMiddleware auth_rejects example_cfg network_down (request_for ''42'')) = 401
   \<and> response_body (authMiddleware auth_rejects example_cfg network_down (request_for ''42'')) =
       ''{"error": true, "msg": "authenticate request failed"}'' @ [CHR 0x0A]
   \<and> restricter_calls (authMiddleware auth_rejects example_cfg network_down (request_for ''42'')) = []
   \<and> handler_calls (authMiddleware auth_rejects example_cfg network_down (request_for ''42'')) = []\<close>
proof -
  have "auth_rejects (request_for ''42'') = Inl (Error ''invalid token'')"
    by (simp add: auth_rejects_def)
  from authMiddleware_unauthenticated [where Authenticate = auth_rejects, OF this] show ?thesis by blast
qed

text \<open>
  Claim C6, amended. For a request that passes authentication and whose \<open>id\<close> path
  segment is not an integer, the middleware writes the header 400 and then
  \<^verbatim>\<open>writeResponse\<close> of \<^verbatim>\<open>{"error": true, "msg": "Projector id invalid"}\<close>, sends
  nothing to the restriction service and does not call the wrapped handler.
  Authentication comes first in the code: a request that fails it gets 401 whatever its
  path segment is, which is what the counterexample after the witness evaluates.
\<close>

theorem authMiddleware_invalid_id:
  assumes "Authenticate r = Inr ctx" and "\<not> decimal_integer (PathValue r ''id'')"
  shows \<open>authMiddleware Authenticate cfg net r =
           WriteHeader 400 # writeResponse ''{"error": true, "msg": "Projector id invalid"}''
         \<and> response_status (authMiddleware Authenticate cfg net r) = 400
         \<and> response_body (authMiddleware Authenticate cfg net r) =
             ''{"error": true, "msg": "Projector id invalid"}'' @ [CHR 0x0A]
         \<and> restricter_calls (authMiddleware Authenticate cfg net r) = []
         \<and> handler_calls (authMiddleware Authenticate cfg net r) = []\<close>
proof -
  from assms(2) obtain e where "Atoi (PathValue r ''id'') = Inl e"
    using Atoi_not_integer by blast
  with assms(1) show ?thesis
    by (simp add: authMiddleware_def writeResponse_def net_http_eval StatusBadRequest_def)
qed

theorem authMiddleware_invalid_id_witness:
  \<open>response_status (authMiddleware (auth_accepts 1) example_cfg network_down (request_for ''abc'')) = 400
   \<and> response_body (authMiddleware (auth_accepts 1) example_cfg network_down (request_for ''abc'')) =
       ''{"error": true, "msg": "Projector id invalid"}'' @ [CHR 0x0A]
   \<and> restricter_calls (authMiddleware (auth_accepts 1) example_cfg network_down (request_for ''abc'')) = []
   \<and> handler_calls (authMiddleware (auth_accepts 1) example_cfg network_down (request_for ''abc'')) = []\<close>
proof -
  have a: "auth_accepts 1 (request_for ''abc'') = Inr \<lparr>userID = 1\<rparr>"
    by (simp add: auth_accepts_def)
  have b: "\<not> decimal_integer (PathValue (request_for ''abc'') ''id'')"
    by (simp add: request_for_def not_integer_abc)
  from authMiddleware_invalid_id [where Authenticate = "auth_accepts 1", OF a b] show ?thesis by blast
qed

theorem authMiddleware_invalid_id_unauthenticated:
  \<open>\<not> decimal_integer (PathValue (request_for ''abc'') ''id'')
   \<and> response_status (authMiddleware auth_rejects example_cfg network_down (request_for ''abc'')) = 401
   \<and> response_status (authMiddleware auth_rejects example_cfg network_down (request_for ''abc'')) \<noteq> 400\<close>
  by (simp add: request_for_def not_integer_abc authMiddleware_def auth_rejects_def
      writeResponse_def net_http_eval StatusUnauthorized_def)


text \<open>
  Claim C5, amended. When the restriction service answers with a status other than 200
  that \<^verbatim>\<open>WriteHeader\<close> takes as a final status (from 100 to 999, and not an
  interim 1xx other than 101), the middleware calls \<^verbatim>\<open>WriteHeader\<close> with that
  status and then \<^verbatim>\<open>writeResponse\<close> of
  \<^verbatim>\<open>{"error": true, "msg": "restriction request failed"}\<close>, and does not call the
  wrapped handler: the response is sent with that same status, and with that body
  (written as a line) unless the status carries no body (101, 204, 304). Outside this
  range the claim fails, which is what the counterexample after the witness evaluates:
  at 204 the body is not sent, and at 99 \<^verbatim>\<open>WriteHeader\<close> panics and no response
  is sent.
\<close>

theorem authMiddleware_propagates_status:
  assumes "Authenticate r = Inr ctx" and "Atoi (PathValue r ''id'') = Inr pid"
    and "url_Parse_ok net (req_URL (restrict_request cfg ctx pid))"
    and "client_Do net (restrict_request cfg ctx pid) = Inr resp"
    and "resp_StatusCode resp \<noteq> 200"
    and "100 \<le> resp_StatusCode resp" and "resp_StatusCode resp \<le> 999"
    and "\<not> informational (resp_StatusCode resp)"
  shows \<open>authMiddleware Authenticate cfg net r =
           [Do (restrict_request cfg ctx pid), WriteHeader (resp_StatusCode resp)]
             @ writeResponse ''{"error": true, "msg": "restriction request failed"}''
         \<and> response_sent (authMiddleware Authenticate cfg net r)
         \<and> response_status (authMiddleware Authenticate cfg net r) = resp_StatusCode resp
         \<and> response_body (authMiddleware Authenticate cfg net r) =
             (if bodyAllowedForStatus (resp_StatusCode resp)
              then ''{"error": true, "msg": "restriction request failed"}'' @ [CHR 0x0A]
              else [])
         \<and> handler_calls (authMiddleware Authenticate cfg net r) = []\<close>
proof -
  note sent = authMiddleware_sent [where Authenticate = Authenticate, OF assms(1,2,3)]
  have tr: \<open>authMiddleware Authenticate cfg net r =
      [Do (restrict_request cfg ctx pid), WriteHeader (resp_StatusCode resp),
       Write (''{"error": true, "msg": "restriction request failed"}'' @ [CHR 0x0A])]\<close>
    using assms(4,5,6,7)
    by (simp add: sent writeResponse_def WriteHeader_then_def validWriteHeaderCode_def StatusOK_def)
  have nh: \<open>net_http None (authMiddleware Authenticate cfg net r) =
      Some (resp_StatusCode resp,
            if bodyAllowedForStatus (resp_StatusCode resp)
            then ''{"error": true, "msg": "restriction request failed"}'' @ [CHR 0x0A]
            else [])\<close>
    using assms(6,7,8) unfolding tr
    by (simp add: validWriteHeaderCode_def)
  show ?thesis
    unfolding response_sent_def response_status_def response_body_def nh
    by (simp add: tr writeResponse_def)
qed

theorem authMiddleware_propagates_status_witness:
  \<open>response_status (authMiddleware (auth_accepts 1) example_cfg
      (network_answering \<lparr>resp_StatusCode = 403, resp_ReadAll = ([], None), resp_Close = None\<rparr>)
      (request_for ''7'')) = 403
   \<and> response_body (authMiddleware (auth_accepts 1) example_cfg
      (network_answering \<lparr>resp_StatusCode = 403, resp_ReadAll = ([], None), resp_Close = None\<rparr>)
      (request_for ''7'')) = ''{"error": true, "msg": "restriction request failed"}'' @ [CHR 0x0A]
   \<and> handler_calls (authMiddleware (auth_accepts 1) example_cfg
      (network_answering \<lparr>resp_StatusCode = 403, resp_ReadAll = ([], None), resp_Close = None\<rparr>)
      (request_for ''7'')) = []\<close>
proof -
  let ?resp = "\<lparr>resp_StatusCode = 403, resp_ReadAll = ([], None), resp_Close = None\<rparr>"
  have a: "auth_accepts 1 (request_for ''7'') = Inr \<lparr>userID = 1\<rparr>"
    by (simp add: auth_accepts_def)
  have b: "Atoi (PathValue (request_for ''7'') ''id'') = Inr 7"
    by (simp add: request_for_def Atoi_7)
  have d: "client_Do (network_answering ?resp) (restrict_request example_cfg \<lparr>userID = 1\<rparr> 7) = Inr ?resp"
    by (simp add: network_answering_def)
  have e: "resp_StatusCode ?resp \<noteq> 200" by simp
  have f: "100 \<le> resp_StatusCode ?resp" by simp
  have g: "resp_StatusCode ?resp \<le> 999" by simp
  have h: "\<not> informational (resp_StatusCode ?resp)" by (simp add: informational_def)
  from authMiddleware_propagates_status [where Authenticate = "auth_accepts 1",
      OF a b example_url_ok d e f g h, THEN conjunct2]
  show ?thesis by (simp add: bodyAllowedForStatus_def)
qed

theorem authMiddleware_propagates_status_no_body:
  \<open>response_status (authMiddleware (auth_accepts 1) example_cfg
      (network_answering \<lparr>resp_StatusCode = 204, resp_ReadAll = ([], None), resp_Close = None\<rparr>)
      (request_for ''7'')) = 204
   \<and> response_body (authMiddleware (auth_accepts 1) example_cfg
      (network_answering \<lparr>resp_StatusCode = 204, resp_ReadAll = ([], None), resp_Close = None\<rparr>)
      (request_for ''7'')) = []
   \<and> \<not> response_sent (authMiddleware (auth_accepts 1) example_cfg
      (network_answering \<lparr>resp_StatusCode = 99, resp_ReadAll = ([], None), resp_Close = None\<rparr>)
      (request_for ''7''))\<close>
proof -
  have a: "auth_accepts 1 (request_for ''7'') = Inr \<lparr>userID = 1\<rparr>"
    by (simp add: auth_accepts_def)
  have b: "Atoi (PathValue (request_for ''7'') ''id'') = Inr 7"
    by (simp add: request_for_def Atoi_7)
  note sent = authMiddleware_sent [where Authenticate = "auth_accepts 1", OF a b example_url_ok]
  show ?thesis
    unfolding sent
    by (simp add: network_answering_def writeResponse_def net_http_eval)
qed

text \<open>
  Claim C7, amended. For an authenticated request with an integer id, the only request
  that goes to the restriction service (none when the URL does not parse) is a POST to
  \<^verbatim>\<open><restricterUrl>?user_id=<callerId>&single=1\<close> whose only header is
  \<^verbatim>\<open>Content-Type: application/json\<close> and whose body is the text
  \<^verbatim>\<open>[{"collection": "projector", "ids":[<id>], "fields": {"id": null}}]\<close>. The body
  is the JSON document of the claim, but not byte for byte the compact text that the
  claim gives: the format string of the code has spaces that the compact text lacks,
  which is what the counterexample after the witness evaluates.
\<close>

theorem authMiddleware_restricter_request:
  assumes "Authenticate r = Inr ctx" and "Atoi (PathValue r ''id'') = Inr pid"
  shows \<open>restricter_calls (authMiddleware Authenticate cfg net r) =
     (if url_Parse_ok net
           (ProjectorConfig.RestricterUrl cfg @ ''?user_id='' @ FormatInt (FromContext ctx) @ ''&single=1'')
      then [\<lparr>req_Method = ''POST'',
             req_URL = ProjectorConfig.RestricterUrl cfg @ ''?user_id='' @ FormatInt (FromContext ctx) @ ''&single=1'',
             req_Header = [(''Content-Type'', [''application/json''])],
             req_Body = ''[{"collection": "projector", "ids":['' @ FormatInt pid @ ''], "fields": {"id": null}}]''\<rparr>]
      else [])\<close>
proof (cases "url_Parse_ok net (req_URL (restrict_request cfg ctx pid))")
  case True
  then show ?thesis
    by (simp add: authMiddleware_sent [where Authenticate = Authenticate, OF assms True]
        writeResponse_def net_http_eval restrict_request_def restrict_body_def
        split: sum.split prod.split option.split)
next
  case False
  with assms show ?thesis
    by (simp add: authMiddleware_def NewRequest_def Let_def writeResponse_def net_http_eval restrict_request_def)
qed

theorem authMiddleware_restricter_request_witness:
  \<open>restricter_calls (authMiddleware (auth_accepts 1) example_cfg network_down (request_for ''7'')) =
     [\<lparr>req_Method = ''POST'',
      req_URL = ''http://autoupdate:9012/internal/autoupdate?user_id=1&single=1'',
      req_Header = [(''Content-Type'', [''application/json''])],
      req_Body = ''[{"collection": "projector", "ids":[7], "fields": {"id": null}}]''\<rparr>]\<close>
proof -
  have a: "auth_accepts 1 (request_for ''7'') = Inr \<lparr>userID = 1\<rparr>"
    by (simp add: auth_accepts_def)
  have b: "Atoi (PathValue (request_for ''7'') ''id'') = Inr 7"
    by (simp add: request_for_def Atoi_7)
  have c: "url_Parse_ok network_down
      (ProjectorConfig.RestricterUrl example_cfg @ ''?user_id='' @ FormatInt (FromContext \<lparr>userID = 1\<rparr>) @ ''&single=1'')"
    by (simp add: network_down_def example_cfg_def FromContext_def FormatInt_1)
  from authMiddleware_restricter_request [where Authenticate = "auth_accepts 1" and net = network_down, OF a b] c
  show ?thesis by (simp add: example_cfg_def FromContext_def FormatInt_1 FormatInt_7)
qed

theorem authMiddleware_restricter_body_not_compact:
  \<open>map req_Body (restricter_calls
      (authMiddleware (auth_accepts 1) example_cfg network_down (request_for ''7'')))
    = [''[{"collection": "projector", "ids":[7], "fields": {"id": null}}]'']
   \<and> ''[{"collection": "projector", "ids":[7], "fields": {"id": null}}]''
       \<noteq> ''[{"collection":"projector","ids":[7],"fields":{"id":null}}]''\<close>
proof -
  have a: "auth_accepts 1 (request_for ''7'') = Inr \<lparr>userID = 1\<rparr>"
    by (simp add: auth_accepts_def)
  have b: "Atoi (PathValue (request_for ''7'') ''id'') = Inr 7"
    by (simp add: request_for_def Atoi_7)
  note sent = authMiddleware_sent [where Authenticate = "auth_accepts 1", OF a b example_url_ok_down]
  show ?thesis
    unfolding sent
    by (simp add: restrict_request_def restrict_body_def FormatInt_7 network_down_def
        StatusInternalServerError_def writeResponse_def net_http_eval)
qed

text \<open>
  Claim C1. For a request that passes authentication and id parsing and that the
  restriction service answers with status 200: the wrapped handler is called exactly
  once, with the request and the authenticated context, if and only if the body was read
  without error and contains the text \<^verbatim>\<open>"projector/<id>/id":<id>\<close>; otherwise the
  response has status 401 and the body \<^verbatim>\<open>{"error": true, "msg": "permissions denied"}\<close>
  (written as a line), and the wrapped handler is not called.
\<close>

theorem authMiddleware_admits_iff_marker:
  assumes "Authenticate r = Inr ctx" and "Atoi (PathValue r ''id'') = Inr pid"
    and "url_Parse_ok net (req_URL (restrict_request cfg ctx pid))"
    and "client_Do net (restrict_request cfg ctx pid) = Inr resp"
    and "resp_StatusCode resp = 200"
    and "resp_ReadAll resp = (b, rerr)"
  shows \<open>(handler_calls (authMiddleware Authenticate cfg net r) = [(r, ctx)]
            \<longleftrightarrow> rerr = None \<and> (\<exists>p q. b = p @ ''"projector/'' @ FormatInt pid @ ''/id":'' @ FormatInt pid @ q))
         \<and> (\<not> (rerr = None \<and> (\<exists>p q. b = p @ ''"projector/'' @ FormatInt pid @ ''/id":'' @ FormatInt pid @ q))
             \<longrightarrow> response_status (authMiddleware Authenticate cfg net r) = 401
               \<and> response_body (authMiddleware Authenticate cfg net r) =
                   ''{"error": true, "msg": "permissions denied"}'' @ [CHR 0x0A]
               \<and> handler_calls (authMiddleware Authenticate cfg net r) = [])\<close>
proof -
  have m: \<open>Contains b (restrict_marker pid) \<longleftrightarrow>
      (\<exists>p q. b = p @ ''"projector/'' @ FormatInt pid @ ''/id":'' @ FormatInt pid @ q)\<close>
    by (simp add: Contains_iff restrict_marker_def)
  show ?thesis
    using assms(4,5,6) m
    by (cases "resp_Close resp")
       (auto simp add: authMiddleware_sent [where Authenticate = Authenticate, OF assms(1,2,3)]
          writeResponse_def net_http_eval StatusOK_def StatusUnauthorized_def)
qed

theorem authMiddleware_admits_iff_marker_witness:
  \<open>handler_calls (authMiddleware (auth_accepts 1) example_cfg
      (network_answering \<lparr>resp_StatusCode = 200, resp_ReadAll = (''{"projector/7/id":7}'', None), resp_Close = None\<rparr>)
      (request_for ''7'')) = [(request_for ''7'', \<lparr>userID = 1\<rparr>)]
   \<and> response_status (authMiddleware (auth_accepts 1) example_cfg
      (network_answering \<lparr>resp_StatusCode = 200, resp_ReadAll = (''{"projector/8/id":8}'', None), resp_Close = None\<rparr>)
      (request_for ''7'')) = 401
   \<and> handler_calls (authMiddleware (auth_accepts 1) example_cfg
      (network_answering \<lparr>resp_StatusCode = 200, resp_ReadAll = (''{"projector/8/id":8}'', None), resp_Close = None\<rparr>)
      (request_for ''7'')) = []\<close>
proof -
  let ?yes = \<open>\<lparr>resp_StatusCode = 200, resp_ReadAll = (''{"projector/7/id":7}'', None), resp_Close = None\<rparr>\<close>
  let ?no = \<open>\<lparr>resp_StatusCode = 200, resp_ReadAll = (''{"projector/8/id":8}'', None), resp_Close = None\<rparr>\<close>
  have a: "auth_accepts 1 (request_for ''7'') = Inr \<lparr>userID = 1\<rparr>"
    by (simp add: auth_accepts_def)
  have b: "Atoi (PathValue (request_for ''7'') ''id'') = Inr 7"
    by (simp add: request_for_def Atoi_7)
  have dy: "client_Do (network_answering ?yes) (restrict_request example_cfg \<lparr>userID = 1\<rparr> 7) = Inr ?yes"
    by (simp add: network_answering_def)
  have dn: "client_Do (network_answering ?no) (restrict_request example_cfg \<lparr>userID = 1\<rparr> 7) = Inr ?no"
    by (simp add: network_answering_def)
  have ry: \<open>resp_ReadAll ?yes = (''{"projector/7/id":7}'', None)\<close> by simp
  have rn: \<open>resp_ReadAll ?no = (''{"projector/8/id":8}'', None)\<close> by simp
  have has: \<open>\<exists>p q. ''{"projector/7/id":7}'' = p @ ''"projector/'' @ FormatInt 7 @ ''/id":'' @ FormatInt 7 @ q\<close>
    by (rule exI [of _ "''{''"], rule exI [of _ "''}''"]) (simp add: FormatInt_7)
  have hasnt: \<open>\<not> (\<exists>p q. ''{"projector/8/id":8}'' = p @ ''"projector/'' @ FormatInt 7 @ ''/id":'' @ FormatInt 7 @ q)\<close>
  proof -
    have \<open>\<not> Contains ''{"projector/8/id":8}'' (''"projector/'' @ FormatInt 7 @ ''/id":'' @ FormatInt 7)\<close>
      by (simp add: FormatInt_7 HasPrefix_def)
    then show ?thesis by (simp add: Contains_iff)
  qed
  from authMiddleware_admits_iff_marker [where Authenticate = "auth_accepts 1", OF a b example_url_ok dy _ ry] has
  have 1: \<open>handler_calls (authMiddleware (auth_accepts 1) example_cfg (network_answering ?yes) (request_for ''7''))
      = [(request_for ''7'', \<lparr>userID = 1\<rparr>)]\<close>
    by simp
  from authMiddleware_admits_iff_marker [where Authenticate = "auth_accepts 1", OF a b example_url_ok dn _ rn] hasnt
  have 2: \<open>response_status (authMiddleware (auth_accepts 1) example_cfg (network_answering ?no) (request_for ''7'')) = 401
     \<and> handler_calls (authMiddleware (auth_accepts 1) example_cfg (network_answering ?no) (request_for ''7'')) = []\<close>
    by simp
  from 1 2 show ?thesis by blast
qed

text \<open>
  Claim C3, evaluated where the code departs from it. When \<^verbatim>\<open>http.NewRequest\<close>
  fails, the middleware only calls \<^verbatim>\<open>writeResponse\<close> with
  \<^verbatim>\<open>{"error": true, "msg": "creating restriction request failed"}\<close>: no
  \<^verbatim>\<open>WriteHeader\<close> comes before it, so the response goes out with status 200. The
  wrapped handler is not called. (When sending the request fails, the status is 500:
  lemma \<open>authMiddleware_transport_failure\<close> below.)
\<close>

theorem authMiddleware_request_construction_failure:
  assumes "Authenticate r = Inr ctx" and "Atoi (PathValue r ''id'') = Inr pid"
    and "\<not> url_Parse_ok net (ProjectorConfig.RestricterUrl cfg @ ''?user_id='' @ FormatInt (FromContext ctx) @ ''&single=1'')"
  shows \<open>authMiddleware Authenticate cfg net r =
            writeResponse ''{"error": true, "msg": "creating restriction request failed"}''
         \<and> response_status (authMiddleware Authenticate cfg net r) = 200
         \<and> handler_calls (authMiddleware Authenticate cfg net r) = []\<close>
  using assms
  by (simp add: authMiddleware_def NewRequest_def Let_def writeResponse_def net_http_eval StatusOK_def)

theorem authMiddleware_request_construction_failure_witness:
  \<open>response_status (authMiddleware (auth_accepts 1)
      \<lparr>ProjectorConfig.RestricterUrl = ''http://autoupdate:9012/internal/autoupdate'' @ [CHR 0x0A]\<rparr>
      network_down (request_for ''7'')) = 200
   \<and> response_body (authMiddleware (auth_accepts 1)
      \<lparr>ProjectorConfig.RestricterUrl = ''http://autoupdate:9012/internal/autoupdate'' @ [CHR 0x0A]\<rparr>
      network_down (request_for ''7'')) =
        ''{"error": true, "msg": "creating restriction request failed"}'' @ [CHR 0x0A]\<close>
proof -
  let ?cfg = "\<lparr>ProjectorConfig.RestricterUrl = ''http://autoupdate:9012/internal/autoupdate'' @ [CHR 0x0A]\<rparr>"
  have a: "auth_accepts 1 (request_for ''7'') = Inr \<lparr>userID = 1\<rparr>"
    by (simp add: auth_accepts_def)
  have b: "Atoi (PathValue (request_for ''7'') ''id'') = Inr 7"
    by (simp add: request_for_def Atoi_7)
  have c: "\<not> url_Parse_ok network_down
      (ProjectorConfig.RestricterUrl ?cfg @ ''?user_id='' @ FormatInt (FromContext \<lparr>userID = 1\<rparr>) @ ''&single=1'')"
    by (simp add: network_down_def)
  note t = authMiddleware_request_construction_failure [where Authenticate = "auth_accepts 1", OF a b c]
  from t have e: \<open>authMiddleware (auth_accepts 1) ?cfg network_down (request_for ''7'') =
      writeResponse ''{"error": true, "msg": "creating restriction request failed"}''\<close>
    by blast
  from t have s: "response_status (authMiddleware (auth_accepts 1) ?cfg network_down (request_for ''7'')) = 200"
    by blast
  have w: \<open>response_body (authMiddleware (auth_accepts 1) ?cfg network_down (request_for ''7'')) =
      ''{"error": true, "msg": "creating restriction request failed"}'' @ [CHR 0x0A]\<close>
    unfolding e by (simp add: writeResponse_def net_http_eval)
  from s w show ?thesis by blast
qed

lemma authMiddleware_transport_failure:
  assumes "Authenticate r = Inr ctx" and "Atoi (PathValue r ''id'') = Inr pid"
    and "url_Parse_ok net (req_URL (restrict_request cfg ctx pid))"
    and "client_Do net (restrict_request cfg ctx pid) = Inl err"
  shows \<open>response_status (authMiddleware Authenticate cfg net r) = 500
         \<and> response_body (authMiddleware Authenticate cfg net r) =
             ''{"error": true, "msg": "restriction request failed"}'' @ [CHR 0x0A]
         \<and> handler_calls (authMiddleware Authenticate cfg net r) = []\<close>
  using assms(4)
  by (simp add: authMiddleware_sent [where Authenticate = Authenticate, OF assms(1,2,3)]
      writeResponse_def net_http_eval StatusInternalServerError_def)

section \<open>Properties of encodePostgresConfig\<close>

lemma ReplaceAll_single: "ReplaceAll s [c] new = replace_each c new s"
  by (induction s) (auto simp: replace_each_def HasPrefix_def)

lemma bs_ne_quote: "backslash \<noteq> quote" by (simp add: backslash_def quote_def)

lemma encode_Cons: "encodePostgresConfig (c # s) = esc c @ encodePostgresConfig s"
  using bs_ne_quote
  by (auto simp: encodePostgresConfig_def ReplaceAll_single replace_each_def esc_def)

lemma encode_Nil: "encodePostgresConfig [] = []"
  by (simp add: encodePostgresConfig_def)

lemma encode_quotes: "i < length (encodePostgresConfig s) \<Longrightarrow> encodePostgresConfig s ! i = quote
   \<Longrightarrow> 0 < i \<and> encodePostgresConfig s ! (i - 1) = backslash"
proof (induction s arbitrary: i)
  case Nil then show ?case by (simp add: encode_Nil)
next
  case (Cons c s)
  show ?case
  proof (cases "i < length (esc c)")
    case True
    with Cons.prems show ?thesis using bs_ne_quote
      by (auto simp: encode_Cons esc_def nth_append nth_Cons' split: if_splits)
  next
    case False
    then have ge: "length (esc c) \<le> i" by simp
    let ?j = "i - length (esc c)"
    from Cons.prems ge have j: "?j < length (encodePostgresConfig s)" "encodePostgresConfig s ! ?j = quote"
      by (auto simp: encode_Cons nth_append)
    from Cons.IH[OF j] have "0 < ?j" "encodePostgresConfig s ! (?j - 1) = backslash" by auto
    then show ?thesis using ge
      by (auto simp: encode_Cons nth_append)
  qed
qed

lemma read_quoted_encode: "read_quoted (encodePostgresConfig s @ quote # rest) = Some (s, rest)"
proof (induction s)
  case Nil show ?case by (cases rest) (simp_all add: encode_Nil)
next
  case (Cons c s)
  obtain x xs where e: "encodePostgresConfig s @ quote # rest = x # xs"
    by (cases "encodePostgresConfig s @ quote # rest") auto
  show ?case using Cons bs_ne_quote
    by (auto simp: encode_Cons esc_def e)
qed

text \<open>
  Claim C10. For every string, \<^verbatim>\<open>encodePostgresConfig\<close> gives the string with each
  backslash replaced by two backslashes and then each single quote replaced by a
  backslash and a quote. So every single quote of the result has a backslash right
  before it; and a value written between single quotes is read back whole: reading the
  encoded value followed by the closing quote ends at that quote and yields the
  original string.
\<close>

theorem encodePostgresConfig_escapes:
  "encodePostgresConfig s =
      replace_each quote [backslash, quote] (replace_each backslash [backslash, backslash] s)
   \<and> (\<forall>i < length (encodePostgresConfig s).
         encodePostgresConfig s ! i = quote \<longrightarrow>
           0 < i \<and> encodePostgresConfig s ! (i - 1) = backslash)
   \<and> read_quoted (encodePostgresConfig s @ quote # rest) = Some (s, rest)"
proof (intro conjI allI impI)
  show "encodePostgresConfig s =
      replace_each quote [backslash, quote] (replace_each backslash [backslash, backslash] s)"
    by (simp add: encodePostgresConfig_def ReplaceAll_single)
next
  fix i
  assume "i < length (encodePostgresConfig s)" and "encodePostgresConfig s ! i = quote"
  then show "0 < i" and "encodePostgresConfig s ! (i - 1) = backslash"
    using encode_quotes [of i s] by simp_all
next
  show "read_quoted (encodePostgresConfig s @ quote # rest) = Some (s, rest)"
    by (rule read_quoted_encode)
qed

theorem encodePostgresConfig_escapes_witness:
  "encodePostgresConfig [CHR ''a'', quote, backslash] = [CHR ''a'', backslash, quote, backslash, backslash]
   \<and> [CHR ''a'', backslash, quote, backslash, backslash] ! 2 = quote
   \<and> [CHR ''a'', backslash, quote, backslash, backslash] ! 1 = backslash
   \<and> read_quoted ([CHR ''a'', backslash, quote, backslash, backslash] @ quote # '' host='')
       = Some ([CHR ''a'', quote, backslash], '' host='')"
proof -
  note t = encodePostgresConfig_escapes [of "[CHR ''a'', quote, backslash]" "'' host=''"]
  from t have e: "encodePostgresConfig [CHR ''a'', quote, backslash] = [CHR ''a'', backslash, quote, backslash, backslash]"
    by (simp add: replace_each_def backslash_def quote_def)
  from t have r: "read_quoted (encodePostgresConfig [CHR ''a'', quote, backslash] @ quote # '' host='')
       = Some ([CHR ''a'', quote, backslash], '' host='')" by blast
  from t have "2 < length (encodePostgresConfig [CHR ''a'', quote, backslash]) \<longrightarrow>
      encodePostgresConfig [CHR ''a'', quote, backslash] ! 2 = quote \<longrightarrow>
      encodePostgresConfig [CHR ''a'', quote, backslash] ! (2 - 1) = backslash" by blast
  then have p: "[CHR ''a'', backslash, quote, backslash, backslash] ! 1 = backslash"
    unfolding e by simp
  have q: "[CHR ''a'', backslash, quote, backslash, backslash] ! 2 = quote" by simp
  from e r p q show ?thesis by simp
qed

section \<open>Properties of startup\<close>




lemma getDatabase_env_Parse: "getDatabase (w\<lparr>env_Parse := p\<rparr>) cfg f = getDatabase w cfg f"
  by (simp add: getDatabase_def parseSecretsFile_def Let_def split: sum.split)

lemma run_env_Parse: "run (w\<lparr>env_Parse := p\<rparr>) cfg = run w cfg"
  by (auto simp: run_def getDatabase_env_Parse Let_def split: option.split prod.split sum.split)

text \<open>
  Claim C9, amended. When \<^verbatim>\<open>env.Parse\<close> fails, \<^verbatim>\<open>main\<close> logs "parsing config"
  and goes on with the configuration as far as it was filled in: from there it does
  exactly what it does when the same configuration is parsed without error. The process
  exits only when \<^verbatim>\<open>run\<close> fails.
\<close>

theorem main_parse_failure_not_fatal:
  assumes "env_Parse w = (cfg, Some err)"
  shows "main w = (LogError ''parsing config'' # fst (main (w\<lparr>env_Parse := (cfg, None)\<rparr>)),
                   snd (main (w\<lparr>env_Parse := (cfg, None)\<rparr>)))"
  using assms
  by (simp add: main_def run_env_Parse split: prod.split run_result.split)

lemma run_example:
  "run (example_world p) example_config =
    ([NewFlowPostgres, NewFlowVoteCount, GoVoteConnect,
      DatabaseNew (pgAddr_of example_config ''secret'') '':''
        (Combine FlowPostgres [(''poll/live_votes'', FlowVoteCount)]),
      ProjectorHttpNew \<lparr>ProjectorConfig.RestricterUrl = ''''\<rparr>
        \<lparr>ds_pgAddr = pgAddr_of example_config ''secret'', ds_redisAddr = '':'',
         ds_flow = Combine FlowPostgres [(''poll/live_votes'', FlowVoteCount)]\<rparr> FlowPostgres,
      LogInfo ''Starting server on :9051'',
      ListenAndServe '':9051''], RunServing)"
  by (simp add: run_def getDatabase_def parseSecretsFile_def example_world_def example_config_def Let_def)

lemma env_Parse_example: "env_Parse (example_world p) = p"
  by (simp add: example_world_def)

lemma main_example:
  "main (example_world (example_config, e)) =
     ((if e \<noteq> None then [LogError ''parsing config''] else [])
        @ fst (run (example_world (example_config, e)) example_config), Serving)"
  by (simp add: main_def env_Parse_example run_example)

theorem main_parse_failure_server_started:
  "env_Parse (example_world (example_config, Some (Error ''env: parse error''))) =
      (example_config, Some (Error ''env: parse error''))
   \<and> ListenAndServe '':9051'' \<in> set (fst (main (example_world (example_config, Some (Error ''env: parse error'')))))
   \<and> snd (main (example_world (example_config, Some (Error ''env: parse error'')))) = Serving"
  by (simp add: main_example env_Parse_example run_example)

theorem main_parse_failure_not_fatal_witness:
  "hd (fst (main (example_world (example_config, Some (Error ''env: parse error''))))) = LogError ''parsing config''
   \<and> snd (main (example_world (example_config, Some (Error ''env: parse error'')))) = Serving"
proof -
  let ?w = "example_world (example_config, Some (Error ''env: parse error''))"
  have p: "env_Parse ?w = (example_config, Some (Error ''env: parse error''))"
    by (rule env_Parse_example)
  have u: "?w\<lparr>env_Parse := (example_config, None)\<rparr> = example_world (example_config, None)"
    by (simp add: example_world_def)
  have m: "snd (main (example_world (example_config, None))) = Serving"
    by (simp add: main_example)
  from main_parse_failure_not_fatal [OF p] show ?thesis
    by (simp add: u m)
qed

text \<open>
  Claim C4, amended. With \<^verbatim>\<open>PublicAccessOnly\<close> set, \<^verbatim>\<open>run\<close> starts no goroutine
  for \<^verbatim>\<open>vote.Connect\<close>, and every flow that it hands to the database layer and to
  the HTTP handlers is the Postgres flow itself, never a combined one. The vote-count
  flow is constructed all the same (\<^verbatim>\<open>datastore.NewFlowVoteCount\<close> is called
  before the flag is looked at); it is then used nowhere.
\<close>

theorem run_public_access_only:
  assumes "PublicAccessOnly cfg"
  shows "GoVoteConnect \<notin> set (fst (run w cfg))
         \<and> set (flows_served (fst (run w cfg))) \<subseteq> {FlowPostgres}
         \<and> (datastore_NewFlowPostgres w = None \<longrightarrow> NewFlowVoteCount \<in> set (fst (run w cfg)))"
  using assms
  by (auto simp: run_def getDatabase_def Let_def split: option.splits sum.splits prod.splits if_splits)


lemma run_public_example:
  "run (example_world p) public_config =
    ([NewFlowPostgres, NewFlowVoteCount,
      DatabaseNew (pgAddr_of public_config ''secret'') '':'' FlowPostgres,
      ProjectorHttpNew \<lparr>ProjectorConfig.RestricterUrl = []\<rparr>
        \<lparr>ds_pgAddr = pgAddr_of public_config ''secret'', ds_redisAddr = '':'',
         ds_flow = FlowPostgres\<rparr> FlowPostgres,
      LogInfo ''Starting server on :9051'',
      ListenAndServe '':9051''], RunServing)"
  by (simp add: run_def getDatabase_def parseSecretsFile_def example_world_def example_config_def
      public_config_def Let_def)

theorem run_public_access_only_witness:
  "GoVoteConnect \<notin> set (fst (run (example_world (public_config, None)) public_config))
   \<and> flows_served (fst (run (example_world (public_config, None)) public_config))
        = [FlowPostgres, FlowPostgres, FlowPostgres]
   \<and> NewFlowVoteCount \<in> set (fst (run (example_world (public_config, None)) public_config))"
proof -
  have p: "PublicAccessOnly public_config"
    by (simp add: public_config_def)
  have n: "datastore_NewFlowPostgres (example_world (public_config, None)) = None"
    by (simp add: example_world_def)
  have f: "flows_served (fst (run (example_world (public_config, None)) public_config))
        = [FlowPostgres, FlowPostgres, FlowPostgres]"
    by (simp add: run_public_example)
  from run_public_access_only [OF p, of "example_world (public_config, None)"] n f
  show ?thesis by blast
qed

theorem run_public_access_only_constructs_vote_flow:
  "PublicAccessOnly public_config
   \<and> NewFlowVoteCount \<in> set (fst (run (example_world (public_config, None)) public_config))"
  by (simp add: run_public_example) (simp add: public_config_def)

end
